theory Spec2Isabelle
  imports Main "HOL-Library.AList" "HOL-Library.Char_ord" "HOL-Library.List_Lexorder"
begin

section \<open>Python values and exceptions\<close>

text \<open>
  The values that reach the code under study: \<^verbatim>\<open>None\<close>, booleans, unbounded
  integers, strings and floats. A float is represented by its \<^verbatim>\<open>repr\<close>, the text
  that \<^verbatim>\<open>str\<close> and \<^verbatim>\<open>format\<close> produce for it.
\<close>

datatype pyval = PyNone | PyBool bool | PyInt int | PyFloat string | PyStr string

text \<open>
  Every exception the modelled code can raise is a value. \<open>KeyError\<close> carries the
  missing key, the others their message or the path they are about.
\<close>

datatype error =
    KeyError string
  | ValueError string
  | IndexError
  | AssertionError
  | Exception string
  | FileNotFoundError string
  | IsADirectoryError string
  | NotADirectoryError string
  | FileExistsError string
  | Unsupported string

definition bind_err :: "error + 'a \<Rightarrow> ('a \<Rightarrow> error + 'b) \<Rightarrow> error + 'b" where
  "bind_err r f = (case r of Inl e \<Rightarrow> Inl e | Inr x \<Rightarrow> f x)"

section \<open>The sorter registry (sorterlist.py)\<close>

text \<open>
  A sorter class, as \<^verbatim>\<open>run_sorter\<close> uses it: its name, its \<^verbatim>\<open>installed\<close>
  flag, and the four operations \<^verbatim>\<open>run_sorter\<close> calls on it. The operations
  belong to the base class, which the registry only calls; they are fields here, acting on
  a world \<open>'w\<close> that holds the sorter instance and the file system.
\<close>

record ('a, 'p, 'w, 'r) sorter_class =
  sorter_name :: string
  installed :: bool
  init :: "'a \<Rightarrow> 'w \<Rightarrow> error + 'w"
  set_params :: "'p \<Rightarrow> 'w \<Rightarrow> error + 'w"
  run :: "'w \<Rightarrow> error + 'w"
  get_result :: "'w \<Rightarrow> error + 'r"

text \<open>
  \<^verbatim>\<open>sorter_dict = {s.sorter_name: s for s in sorter_full_list}\<close>: a dictionary
  keeps the position of a key's first insertion and the value of its last, which is what
  \<open>AList.update\<close> does.
\<close>

definition sorter_dict ::
  "('a, 'p, 'w, 'r) sorter_class list \<Rightarrow> (string \<times> ('a, 'p, 'w, 'r) sorter_class) list" where
  "sorter_dict sorter_full_list =
     foldl (\<lambda>d s. AList.update (sorter_name s) s d) [] sorter_full_list"

definition installed_sorter_list ::
  "('a, 'p, 'w, 'r) sorter_class list \<Rightarrow> ('a, 'p, 'w, 'r) sorter_class list" where
  "installed_sorter_list sorter_full_list = filter installed sorter_full_list"

definition available_sorters :: "('a, 'p, 'w, 'r) sorter_class list \<Rightarrow> string list" where
  "available_sorters sorter_full_list = sort (map fst (sorter_dict sorter_full_list))"

definition installed_sorters :: "('a, 'p, 'w, 'r) sorter_class list \<Rightarrow> string list" where
  "installed_sorters sorter_full_list =
     sort (map sorter_name (installed_sorter_list sorter_full_list))"





section \<open>Strings and \<^verbatim>\<open>str.format\<close>\<close>

definition newline :: char where
  "newline = CHR 0x0A"

definition dquote :: char where
  "dquote = CHR 0x22"

fun str_nat :: "nat \<Rightarrow> string" where
  "str_nat n =
     (if n < 10 then [''0123456789'' ! n] else str_nat (n div 10) @ [''0123456789'' ! (n mod 10)])"

declare str_nat.simps [simp del]

definition str_int :: "int \<Rightarrow> string" where
  "str_int i = (if i < 0 then CHR ''-'' # str_nat (nat (- i)) else str_nat (nat i))"

text \<open>\<^verbatim>\<open>str(v)\<close>, which is also what an empty format specification produces.\<close>

fun py_str :: "pyval \<Rightarrow> string" where
  "py_str PyNone = ''None''"
| "py_str (PyBool b) = (if b then ''True'' else ''False'')"
| "py_str (PyInt i) = str_int i"
| "py_str (PyFloat r) = r"
| "py_str (PyStr s) = s"

text \<open>
  The truth value of \<^verbatim>\<open>if v:\<close>. A float is zero when its \<^verbatim>\<open>repr\<close> is
  \<^verbatim>\<open>0.0\<close> or \<^verbatim>\<open>-0.0\<close>.
\<close>

fun py_truthy :: "pyval \<Rightarrow> bool" where
  "py_truthy PyNone = False"
| "py_truthy (PyBool b) = b"
| "py_truthy (PyInt i) = (i \<noteq> 0)"
| "py_truthy (PyFloat r) = (r \<noteq> ''0.0'' \<and> r \<noteq> ''-0.0'')"
| "py_truthy (PyStr s) = (s \<noteq> [])"

text \<open>\<^verbatim>\<open>sub in s\<close> on strings.\<close>

fun contains :: "string \<Rightarrow> string \<Rightarrow> bool" where
  "contains sub [] = (sub = [])"
| "contains sub (c # cs) = (take (length sub) (c # cs) = sub \<or> contains sub cs)"

text \<open>\<^verbatim>\<open>p[k]\<close> on a dictionary.\<close>

definition getitem :: "(string \<rightharpoonup> pyval) \<Rightarrow> string \<Rightarrow> error + pyval" where
  "getitem p k = (case p k of None \<Rightarrow> Inl (KeyError k) | Some v \<Rightarrow> Inr v)"

text \<open>
  \<^verbatim>\<open>template.format(**kw)\<close> with keyword arguments only. Doubled braces are literal
  braces, \<^verbatim>\<open>{name}\<close> is replaced by \<^verbatim>\<open>str(kw[name])\<close>. A field with an empty
  or numeric name asks for a positional argument, and there is none. Replacement fields
  with a conversion, a format specification, an attribute or an index are outside this
  model and give \<open>Unsupported\<close>.
\<close>

definition format_field :: "(string \<rightharpoonup> pyval) \<Rightarrow> string \<Rightarrow> error + string" where
  "format_field kw name =
     (if list_ex (\<lambda>c. c \<in> set ''{!:.['') name then Inl (Unsupported name)
      else if list_all (\<lambda>c. c \<in> set ''0123456789'') name then Inl IndexError
      else map_sum id py_str (getitem kw name))"

definition cons_ok :: "char \<Rightarrow> error + string \<Rightarrow> error + string" where
  "cons_ok c r = map_sum id ((#) c) r"

definition append_ok :: "error + string \<Rightarrow> error + string \<Rightarrow> error + string" where
  "append_ok r1 r2 = bind_err r1 (\<lambda>a. map_sum id ((@) a) r2)"

fun format_text :: "(string \<rightharpoonup> pyval) \<Rightarrow> string \<Rightarrow> error + string"
  and format_open :: "(string \<rightharpoonup> pyval) \<Rightarrow> string \<Rightarrow> error + string"
  and format_close :: "(string \<rightharpoonup> pyval) \<Rightarrow> string \<Rightarrow> error + string"
  and format_name :: "(string \<rightharpoonup> pyval) \<Rightarrow> string \<Rightarrow> string \<Rightarrow> error + string"
where
  "format_text kw [] = Inr []"
| "format_text kw (c # cs) =
     (if c = CHR ''{'' then format_open kw cs
      else if c = CHR ''}'' then format_close kw cs
      else cons_ok c (format_text kw cs))"
| "format_open kw [] = Inl (ValueError ''Single '{' encountered in format string'')"
| "format_open kw (c # cs) =
     (if c = CHR ''{'' then cons_ok c (format_text kw cs)
      else if c = CHR ''}'' then append_ok (format_field kw []) (format_text kw cs)
      else format_name kw [c] cs)"
| "format_close kw [] = Inl (ValueError ''Single '}' encountered in format string'')"
| "format_close kw (c # cs) =
     (if c = CHR ''}'' then cons_ok c (format_text kw cs)
      else Inl (ValueError ''Single '}' encountered in format string''))"
| "format_name kw name [] = Inl (ValueError ''expected '}' before end of string'')"
| "format_name kw name (c # cs) =
     (if c = CHR ''}'' then append_ok (format_field kw name) (format_text kw cs)
      else format_name kw (name @ [c]) cs)"

section \<open>Paths and the file system\<close>

text \<open>
  A \<^verbatim>\<open>pathlib.Path\<close> on a POSIX system: a root (empty, one slash or two) and the
  components, with empty components and \<^verbatim>\<open>.\<close> dropped at construction.
\<close>

datatype path = PosixPath (root: string) (parts: "string list")

fun split_on :: "char \<Rightarrow> string \<Rightarrow> string list" where
  "split_on d [] = [[]]"
| "split_on d (c # cs) =
     (if c = d then [] # split_on d cs
      else (case split_on d cs of [] \<Rightarrow> [[c]] | w # ws \<Rightarrow> (c # w) # ws))"

definition path_root :: "string \<Rightarrow> string" where
  "path_root s =
     (if take 2 s = ''//'' \<and> take 3 s \<noteq> ''///'' then ''//''
      else if take 1 s = ''/'' then ''/''
      else [])"

definition path_parts :: "string \<Rightarrow> string list" where
  "path_parts s = filter (\<lambda>w. w \<noteq> [] \<and> w \<noteq> ''.'') (split_on CHR ''/'' s)"

definition Path :: "string \<Rightarrow> path" where
  "Path s = PosixPath (path_root s) (path_parts s)"

fun join_with :: "string \<Rightarrow> string list \<Rightarrow> string" where
  "join_with sep [] = []"
| "join_with sep [w] = w"
| "join_with sep (w # v # ws) = w @ sep @ join_with sep (v # ws)"

text \<open>\<^verbatim>\<open>str(p)\<close>.\<close>

definition path_str :: "path \<Rightarrow> string" where
  "path_str p =
     (if root p = [] \<and> parts p = [] then ''.'' else root p @ join_with ''/'' (parts p))"

text \<open>\<^verbatim>\<open>p / s\<close> with a string on the right: an absolute right operand replaces the left.\<close>

definition joinpath :: "path \<Rightarrow> string \<Rightarrow> path" where
  "joinpath p s =
     (if path_root s \<noteq> [] then Path s else PosixPath (root p) (parts p @ path_parts s))"

text \<open>\<^verbatim>\<open>p.absolute()\<close>, with the current directory as \<^verbatim>\<open>os.getcwd()\<close> gives it.\<close>

definition absolute :: "string \<Rightarrow> path \<Rightarrow> path" where
  "absolute cwd p =
     (if root p \<noteq> [] then p else PosixPath (path_root cwd) (path_parts cwd @ parts p))"

definition parent :: "path \<Rightarrow> path" where
  "parent p = (if parts p = [] then p else PosixPath (root p) (butlast (parts p)))"

text \<open>\<^verbatim>\<open>os.path.join(a, b)\<close> for a relative \<open>b\<close>.\<close>

definition os_path_join :: "string \<Rightarrow> string \<Rightarrow> string" where
  "os_path_join a b =
     (if take 1 b = ''/'' then b
      else if a = [] \<or> last a = CHR ''/'' then a @ b
      else a @ ''/'' @ b)"

text \<open>
  The file system maps a path, as the program hands it to the operating system, to what
  is there. A file holds the text a read in text mode returns. Permissions, symbolic
  links and \<^verbatim>\<open>..\<close> are not modelled: a path is looked up as it is written.
\<close>

datatype node = Dir | File string

type_synonym filesystem = "string \<rightharpoonup> node"

definition is_dir :: "filesystem \<Rightarrow> path \<Rightarrow> bool" where
  "is_dir fs p = (fs (path_str p) = Some Dir)"

text \<open>\<^verbatim>\<open>open(name, 'r').read()\<close>.\<close>

definition read_text :: "filesystem \<Rightarrow> string \<Rightarrow> error + string" where
  "read_text fs name =
     (case fs name of
        None \<Rightarrow> Inl (FileNotFoundError name)
      | Some Dir \<Rightarrow> Inl (IsADirectoryError name)
      | Some (File t) \<Rightarrow> Inr t)"

text \<open>
  \<^verbatim>\<open>open(name, 'w').write(t)\<close>: the directory that holds the file must exist.
\<close>

definition write_text :: "filesystem \<Rightarrow> string \<Rightarrow> string \<Rightarrow> error + filesystem" where
  "write_text fs name t =
     (if fs name = Some Dir then Inl (IsADirectoryError name)
      else (case fs (path_str (parent (Path name))) of
              None \<Rightarrow> Inl (FileNotFoundError name)
            | Some (File u) \<Rightarrow> Inl (NotADirectoryError name)
            | Some Dir \<Rightarrow> Inr (fs(name \<mapsto> File t))))"

text \<open>
  \<^verbatim>\<open>os.makedirs(name, exist_ok=True)\<close>: every missing directory on the way is
  created; a file in the way is an error.
\<close>

definition ancestors :: "path \<Rightarrow> string list" where
  "ancestors p = map (\<lambda>k. path_str (PosixPath (root p) (take k (parts p)))) [1..<Suc (length (parts p))]"

definition is_file :: "filesystem \<Rightarrow> string \<Rightarrow> bool" where
  "is_file fs name = (case fs name of Some (File t) \<Rightarrow> True | _ \<Rightarrow> False)"

definition makedirs :: "filesystem \<Rightarrow> string \<Rightarrow> error + filesystem" where
  "makedirs fs name =
     (case filter (is_file fs) (ancestors (Path name)) of
        [] \<Rightarrow> Inr (fold (\<lambda>a f. f(a \<mapsto> Dir)) (ancestors (Path name)) fs)
      | a # as \<Rightarrow> Inl (if a = path_str (Path name) then FileExistsError a else NotADirectoryError a))"

fun readline :: "string \<Rightarrow> string" where
  "readline [] = []"
| "readline (c # cs) = (if c = newline then [c] else c # readline cs)"

section \<open>The HDSort adapter (hdsort/hdsort.py)\<close>

text \<open>
  Lines 17 and 18 of \<^verbatim>\<open>check_if_installed\<close>: when the string starts with a double
  quote, the slice \<^verbatim>\<open>[1:-1]\<close> drops its first and its last character.
\<close>

definition strip_quotes :: "string \<Rightarrow> string" where
  "strip_quotes hdsort_path =
     (if take 1 hdsort_path = [dquote] then butlast (tl hdsort_path) else hdsort_path)"

text \<open>
  \<^verbatim>\<open>check_if_installed\<close>, on any value a caller can pass. The assertion on line 15
  fails for a value that is neither \<^verbatim>\<open>None\<close> nor a string.
\<close>

definition check_if_installed :: "filesystem \<Rightarrow> string \<Rightarrow> pyval \<Rightarrow> error + bool" where
  "check_if_installed fs cwd hdsort_path =
     (case hdsort_path of
        PyNone \<Rightarrow> Inr False
      | PyStr p \<Rightarrow>
          (let p1 = strip_quotes p;
               p2 = path_str (absolute cwd (Path p1))
           in if is_dir fs (joinpath (Path p2) ''+hdsort'') then Inr True else Inr False)
      | _ \<Rightarrow> Inl AssertionError)"

definition installation_mesg :: string where
  "installation_mesg =
     [newline] @ ''To use HDSort run:'' @ [newline, newline]
     @ ''        >>> git clone https://git.bsse.ethz.ch/hima_public/HDsort.git'' @ [newline]
     @ ''    and provide the installation path by setting the HDSORT_PATH'' @ [newline]
     @ ''    environment variables or using HDSortSorter.set_hdsort_path().''
     @ [newline, newline, newline, newline]
     @ ''    More information on HDSort at:'' @ [newline]
     @ ''        https://git.bsse.ethz.ch/hima_public/HDsort.git'' @ [newline]
     @ ''    ''"


text \<open>
  What the adapter takes from outside this repository and from the interpreter: the
  current directory, the directory of the module (where the two templates are), the
  platform name, the recording's writer and sampling frequency, the shell script helper
  (started and waited for: it returns the exit code and the file system the child leaves),
  \<^verbatim>\<open>float\<close> on a string, and the constructor of the result.
\<close>

record ('rec, 'r) hd_env =
  cwd :: string
  source_dir :: path
  platform :: string
  write_recording :: "'rec \<Rightarrow> string \<Rightarrow> filesystem \<Rightarrow> error + filesystem"
  get_sampling_frequency :: "'rec \<Rightarrow> pyval"
  shell :: "string \<Rightarrow> filesystem \<Rightarrow> int \<times> filesystem"
  float_of_str :: "string \<Rightarrow> error + pyval"
  MdaSortingExtractor :: "string \<Rightarrow> pyval \<Rightarrow> filesystem \<Rightarrow> error + 'r"

text \<open>
  What the adapter changes: the file system, the class attribute
  \<^verbatim>\<open>HDSortSorter.hdsort_path\<close> and the dictionary \<^verbatim>\<open>self.params\<close>.
\<close>

record hd_state =
  fs :: filesystem
  hdsort_path :: pyval
  params :: "string \<rightharpoonup> pyval"

text \<open>
  \<^verbatim>\<open>get_sorter_version\<close>, with the environment variables as a map. The first
  component lists the files it opens.
\<close>

definition get_sorter_version ::
  "(string \<rightharpoonup> string) \<Rightarrow> filesystem \<Rightarrow> string list \<times> (error + string)" where
  "get_sorter_version environ files =
     (case environ ''HDSORT_PATH'' of
        None \<Rightarrow> ([], Inr ''unknown'')
      | Some p \<Rightarrow>
          ([os_path_join p ''version.txt''],
           map_sum id readline (read_text files (os_path_join p ''version.txt''))))"

text \<open>
  \<^verbatim>\<open>_setup_recording\<close>. The dictionary \<open>p\<close> of the source is \<^verbatim>\<open>self.params\<close>
  itself, so every assignment to it is an assignment to the sorter's parameters.
\<close>

definition HDSortSorter_setup_recording ::
  "('rec, 'r) hd_env \<Rightarrow> 'rec \<Rightarrow> path \<Rightarrow> hd_state \<Rightarrow> error + hd_state" where
  "HDSortSorter_setup_recording E recording output_folder s =
     bind_err (check_if_installed (fs s) (cwd E) (hdsort_path s)) (\<lambda>ok.
     if \<not> ok then Inl (Exception installation_mesg)
     else (case hdsort_path s of
       PyStr hp \<Rightarrow>
         (let utils_path = joinpath (parent (source_dir E)) ''utils'';
              file_name = joinpath output_folder ''recording.h5''
          in
          bind_err (write_recording E recording (path_str file_name) (fs s)) (\<lambda>fs1.
          let p1 = (params s)
                (''file_name'' \<mapsto> PyStr (path_str (absolute (cwd E) file_name)),
                 ''file_format'' \<mapsto> PyStr ''mea1k'',
                 ''sort_name'' \<mapsto> PyStr ''hdsort_output'')
          in
          bind_err (read_text fs1 (path_str (joinpath (source_dir E) ''hdsort_master.m''))) (\<lambda>hdsort_master_txt.
          bind_err (read_text fs1 (path_str (joinpath (source_dir E) ''hdsort_config.m''))) (\<lambda>hdsort_config_txt.
          bind_err (getitem p1 ''file_name'') (\<lambda>v_file_name.
          bind_err (getitem p1 ''file_format'') (\<lambda>v_file_format.
          bind_err (getitem p1 ''sort_name'') (\<lambda>v_sort_name.
          bind_err (getitem p1 ''chunk_size'') (\<lambda>v_chunk_size.
          bind_err (getitem p1 ''loop_mode'') (\<lambda>v_loop_mode.
          bind_err (format_text
                [''hdsort_path'' \<mapsto> PyStr (path_str (absolute (cwd E) (Path hp))),
                 ''utils_path'' \<mapsto> PyStr (path_str (absolute (cwd E) utils_path)),
                 ''output_folder'' \<mapsto> PyStr (path_str output_folder),
                 ''config_path'' \<mapsto>
                    PyStr (path_str (absolute (cwd E) (joinpath output_folder ''hdsort_config.m''))),
                 ''file_name'' \<mapsto> v_file_name,
                 ''file_format'' \<mapsto> v_file_format,
                 ''sort_name'' \<mapsto> v_sort_name,
                 ''chunk_size'' \<mapsto> v_chunk_size,
                 ''loop_mode'' \<mapsto> v_loop_mode]
                hdsort_master_txt) (\<lambda>master_out.
          bind_err (getitem p1 ''filter'') (\<lambda>v_filter.
          let p2 = p1(''filter'' \<mapsto> (if py_truthy v_filter then PyInt 1 else PyInt 0)) in
          bind_err (getitem p2 ''parfor'') (\<lambda>v_parfor.
          let p3 = p2(''parfor'' \<mapsto> (if py_truthy v_parfor then PyStr ''true'' else PyStr ''false'')) in
          bind_err (getitem p3 ''filter'') (\<lambda>a_filter.
          bind_err (getitem p3 ''parfor'') (\<lambda>a_parfor.
          bind_err (getitem p3 ''hpf'') (\<lambda>a_hpf.
          bind_err (getitem p3 ''lpf'') (\<lambda>a_lpf.
          bind_err (getitem p3 ''detect_threshold'') (\<lambda>a_detect_threshold.
          bind_err (getitem p3 ''n_pc_dims'') (\<lambda>a_n_pc_dims.
          bind_err (format_text
                [''filter'' \<mapsto> a_filter,
                 ''parfor'' \<mapsto> a_parfor,
                 ''hpf'' \<mapsto> a_hpf,
                 ''lpf'' \<mapsto> a_lpf,
                 ''detect_threshold'' \<mapsto> a_detect_threshold,
                 ''n_pc_dims'' \<mapsto> a_n_pc_dims]
                hdsort_config_txt) (\<lambda>config_out.
          bind_err (write_text fs1 (path_str (joinpath output_folder ''hdsort_master.m'')) master_out) (\<lambda>fs2.
          bind_err (write_text fs2 (path_str (joinpath output_folder ''hdsort_config.m'')) config_out) (\<lambda>fs3.
          Inr (s\<lparr>fs := fs3, params := p3\<rparr>))))))))))))))))))))))
     | _ \<Rightarrow> Inl AssertionError))"

text \<open>The two script texts of \<^verbatim>\<open>_run\<close>, before \<^verbatim>\<open>format\<close>.\<close>

definition win_cmd :: string where
  "win_cmd =
     [newline] @ replicate 24 CHR '' '' @ ''cd {tmpdir}'' @ [newline]
     @ replicate 24 CHR '' '' @ ''matlab -nosplash -nodisplay -wait -r hdsort_master'' @ [newline]
     @ replicate 20 CHR '' ''"

definition posix_cmd :: string where
  "posix_cmd =
     [newline] @ replicate 24 CHR '' '' @ ''#!/bin/bash'' @ [newline]
     @ replicate 24 CHR '' '' @ ''cd '' @ [dquote] @ ''{tmpdir}'' @ [dquote] @ [newline]
     @ replicate 24 CHR '' '' @ ''matlab -nosplash -nodisplay -r hdsort_master'' @ [newline]
     @ replicate 20 CHR '' ''"

text \<open>
  \<^verbatim>\<open>_run\<close>: make the folder, run the script, check the exit code, write the
  sampling frequency beside the results.
\<close>

definition HDSortSorter_run ::
  "('rec, 'r) hd_env \<Rightarrow> 'rec \<Rightarrow> path \<Rightarrow> hd_state \<Rightarrow> error + hd_state" where
  "HDSortSorter_run E recording output_folder s =
     bind_err (makedirs (fs s) (path_str output_folder)) (\<lambda>fs1.
     let samplerate = get_sampling_frequency E recording in
     bind_err (format_text [''tmpdir'' \<mapsto> PyStr (path_str output_folder)]
                 (if contains ''win'' (platform E) \<and> platform E \<noteq> ''darwin''
                  then win_cmd else posix_cmd)) (\<lambda>shell_cmd.
     (case shell E shell_cmd fs1 of (retcode, fs2) \<Rightarrow>
        if retcode \<noteq> 0 then Inl (Exception ''HDsort returned a non-zero exit code'')
        else
          bind_err (write_text fs2 (path_str (joinpath output_folder ''samplerate.txt''))
                      (py_str samplerate)) (\<lambda>fs3.
          Inr (s\<lparr>fs := fs3\<rparr>)))))"

text \<open>\<^verbatim>\<open>get_result_from_folder\<close>: it reads the folder and nothing else.\<close>

definition get_result_from_folder ::
  "('rec, 'r) hd_env \<Rightarrow> path \<Rightarrow> filesystem \<Rightarrow> error + 'r" where
  "get_result_from_folder E output_folder fs0 =
     (let result_fname = path_str (joinpath output_folder ''firings.mda'');
          samplerate_fname = path_str (joinpath output_folder ''samplerate.txt'')
      in
      bind_err (read_text fs0 samplerate_fname) (\<lambda>txt.
      bind_err (float_of_str E txt) (\<lambda>samplerate.
      MdaSortingExtractor E result_fname samplerate fs0)))"

section \<open>A sample installation\<close>

text \<open>
  Concrete inputs on which the definitions above are run: an installation of the tool
  under \<^verbatim>\<open>/opt/hdsort\<close>, the module with two short templates that use every
  placeholder, an existing output folder, a recording sampled at 30 kHz, and a child
  process that writes \<^verbatim>\<open>firings.mda\<close> and exits with a given code.
\<close>

datatype recording = Recording (sampling_frequency: pyval)

datatype sorting = Sorting (file_path: string) (sorting_frequency: pyval)

definition sample_master :: string where
  "sample_master =
     ''cd {output_folder}; run {config_path}; addpath {hdsort_path} {utils_path}; ''
     @ ''sort {file_name} {file_format} {sort_name} {chunk_size} {loop_mode} {{}}''"

definition sample_config :: string where
  "sample_config =
     ''filter={filter} parfor={parfor} hpf={hpf} lpf={lpf} thr={detect_threshold} dims={n_pc_dims}''"

definition sample_files :: filesystem where
  "sample_files =
     [''/opt/hdsort'' \<mapsto> Dir,
      ''/opt/hdsort/+hdsort'' \<mapsto> Dir,
      ''/pkg/spikesorters/hdsort/hdsort_master.m'' \<mapsto> File sample_master,
      ''/pkg/spikesorters/hdsort/hdsort_config.m'' \<mapsto> File sample_config,
      ''/out'' \<mapsto> Dir]"

definition sample_recording :: recording where
  "sample_recording = Recording (PyFloat ''30000.0'')"

definition sample_folder :: path where
  "sample_folder = Path ''/out''"

definition sample_env :: "int \<Rightarrow> (recording, sorting) hd_env" where
  "sample_env code =
     \<lparr>cwd = ''/home/user'',
      source_dir = Path ''/pkg/spikesorters/hdsort'',
      platform = ''linux'',
      write_recording = (\<lambda>r name files. write_text files name ''mea1k data''),
      get_sampling_frequency = sampling_frequency,
      shell = (\<lambda>cmd files. (code, files(''/out/firings.mda'' \<mapsto> File ''firings''))),
      float_of_str = (\<lambda>t. if t = ''30000.0'' then Inr (PyFloat ''30000.0'')
                        else Inl (ValueError (''could not convert string to float: '' @ t))),
      MdaSortingExtractor = (\<lambda>name rate files.
         case read_text files name of Inl e \<Rightarrow> Inl e | Inr t \<Rightarrow> Inr (Sorting name rate))\<rparr>"


text \<open>
  A sorter class for the registry, bound to the sample recording and folder. The base
  class is not among the sources; here the constructor does nothing, the parameters
  given override the defaults, and a run is the two stages of the adapter in order.
\<close>

definition sample_class ::
  "int \<Rightarrow> (unit, string \<rightharpoonup> pyval, hd_state, sorting) sorter_class" where
  "sample_class code =
     \<lparr>sorter_name = ''hdsort'',
      installed = True,
      init = (\<lambda>a w. Inr w),
      set_params = (\<lambda>ps w. Inr (w\<lparr>params := params w ++ ps\<rparr>)),
      run = (\<lambda>w. bind_err
               (HDSortSorter_setup_recording (sample_env code) sample_recording sample_folder w)
               (HDSortSorter_run (sample_env code) sample_recording sample_folder)),
      get_result = (\<lambda>w. get_result_from_folder (sample_env code) sample_folder (fs w))\<rparr>"

section \<open>Properties of the registry\<close>

lemma fst_set_update: "fst ` set (AList.update k v al) = insert k (fst ` set al)"
  by (induction al) auto

lemma distinct_foldl_update:
  "distinct (map fst d) \<Longrightarrow>
   distinct (map fst (foldl (\<lambda>d s. AList.update (f s) s d) d xs))"
  by (induction xs arbitrary: d) (simp_all add: distinct_update)

lemma keys_foldl_update:
  "fst ` set (foldl (\<lambda>d s. AList.update (f s) s d) d xs) = fst ` set d \<union> f ` set xs"
  by (induction xs arbitrary: d) (auto simp: fst_set_update)

lemma distinct_sorter_dict: "distinct (map fst (sorter_dict l))"
  unfolding sorter_dict_def by (rule distinct_foldl_update) simp

lemma keys_sorter_dict: "fst ` set (sorter_dict l) = sorter_name ` set l"
  unfolding sorter_dict_def by (simp add: keys_foldl_update)



text \<open>
  Claim C9. \<^verbatim>\<open>available_sorters()\<close> is sorted in the order of Python strings and
  has no duplicates, whatever the list of registered classes; it holds exactly the
  registered names, and every name of \<^verbatim>\<open>installed_sorters()\<close> is among them.
\<close>

theorem available_sorters_sorted_distinct:
  "sorted (available_sorters l) \<and> distinct (available_sorters l)
   \<and> set (available_sorters l) = sorter_name ` set l
   \<and> set (installed_sorters l) \<subseteq> set (available_sorters l)"
  using distinct_sorter_dict [of l] keys_sorter_dict [of l]
  by (auto simp: available_sorters_def installed_sorters_def installed_sorter_list_def)

theorem available_sorters_sorted_distinct_witness:
  "available_sorters
     [(sample_class 0)\<lparr>sorter_name := ''klusta'', installed := False\<rparr>, sample_class 0,
      (sample_class 1)\<lparr>sorter_name := ''klusta''\<rparr>]
     = [''hdsort'', ''klusta''] \<and>
   set (installed_sorters
     [(sample_class 0)\<lparr>sorter_name := ''klusta'', installed := False\<rparr>, sample_class 0,
      (sample_class 1)\<lparr>sorter_name := ''klusta''\<rparr>])
     \<subseteq> {''hdsort'', ''klusta''}"
  using available_sorters_sorted_distinct
    [of "[(sample_class 0)\<lparr>sorter_name := ''klusta'', installed := False\<rparr>, sample_class 0,
          (sample_class 1)\<lparr>sorter_name := ''klusta''\<rparr>]"]
  by (simp add: available_sorters_def sorter_dict_def sample_class_def)




section \<open>Properties of the installation probe\<close>









text \<open>
  Quote stripping: a path between two double quotes loses exactly the two quotes, and a
  path that does not start with a double quote is unchanged.
\<close>

lemma strip_quotes_quoted: "strip_quotes (dquote # p @ [dquote]) = p"
  by (simp add: strip_quotes_def butlast_append)

lemma strip_quotes_unquoted: "take 1 p \<noteq> [dquote] \<Longrightarrow> strip_quotes p = p"
  by (simp add: strip_quotes_def)

text \<open>
  Claim C7 does not hold of the code: only the first character is tested. A path that
  starts with a double quote and does not end with one loses its last character, so the
  probe looks under another directory.
\<close>

theorem strip_quotes_unbalanced:
  "strip_quotes (dquote # ''/opt/hdsort'') = ''/opt/hdsor'' \<and>
   check_if_installed [''/opt/hdsor/+hdsort'' \<mapsto> Dir] ''/'' (PyStr (dquote # ''/opt/hdsort''))
     = Inr True \<and>
   check_if_installed [''/opt/hdsor/+hdsort'' \<mapsto> Dir] ''/'' (PyStr ''/opt/hdsort'')
     = Inr False"
  by (simp add: strip_quotes_def check_if_installed_def is_dir_def Let_def Path_def path_root_def
      path_parts_def absolute_def joinpath_def path_str_def dquote_def)

section \<open>Properties of the version query\<close>

text \<open>
  Claim C10. With \<^verbatim>\<open>HDSORT_PATH\<close> unset, \<^verbatim>\<open>get_sorter_version\<close> returns
  \<^verbatim>\<open>unknown\<close> and opens no file; with the variable set it opens
  \<^verbatim>\<open>version.txt\<close> under that path and nothing else.
\<close>

theorem get_sorter_version_unset:
  "(environ ''HDSORT_PATH'' = None \<longrightarrow>
      get_sorter_version environ files = ([], Inr ''unknown'')) \<and>
   (\<forall>p. environ ''HDSORT_PATH'' = Some p \<longrightarrow>
      fst (get_sorter_version environ files) = [os_path_join p ''version.txt''])"
  by (simp add: get_sorter_version_def)

theorem get_sorter_version_unset_witness:
  "Map.empty ''HDSORT_PATH'' = (None :: string option) \<and>
   get_sorter_version Map.empty sample_files = ([], Inr ''unknown'') \<and>
   get_sorter_version [''HDSORT_PATH'' \<mapsto> ''/opt/hdsort''] sample_files
     = ([''/opt/hdsort/version.txt''], Inl (FileNotFoundError ''/opt/hdsort/version.txt''))"
  using get_sorter_version_unset [of Map.empty sample_files]
  by (simp add: get_sorter_version_def os_path_join_def read_text_def sample_files_def)

end
